theory Spec2Isabelle
  imports Main
begin

section \<open>Strings and regular-expression primitives of the sources\<close>

text \<open>
  A JavaScript string is a sequence of UTF-16 code units. The model uses \<open>string\<close>
  (a \<open>char list\<close>), reading each \<open>char\<close> as the code unit with the same number, so
  it covers every string whose code units lie below 0x100. Within that range the
  regular-expression classes of the sources are exact: \<open>\s\<close> is TAB, LF, VT, FF, CR,
  SPACE and U+00A0; \<open>.\<close> is everything but LF and CR; and the \<open>i\<close> flag identifies
  exactly the ASCII letters of both cases with the (ASCII) letters of the patterns.
\<close>

abbreviation BSLASH :: char where "BSLASH \<equiv> CHR 0x5C"
abbreviation SQUOTE :: char where "SQUOTE \<equiv> CHR 0x27"
abbreviation DQUOTE :: char where "DQUOTE \<equiv> CHR 0x22"
abbreviation BTICK :: char where "BTICK \<equiv> CHR 0x60"
abbreviation CARET :: char where "CARET \<equiv> CHR 0x5E"
abbreviation LF :: char where "LF \<equiv> CHR 0x0A"
abbreviation CR :: char where "CR \<equiv> CHR 0x0D"

text \<open>\<open>Array.prototype.join(sep)\<close> on an array of strings.\<close>

fun join :: "string \<Rightarrow> string list \<Rightarrow> string" where
  "join sep [] = []"
| "join sep [x] = x"
| "join sep (x # y # ys) = x @ sep @ join sep (y # ys)"

text \<open>The class \<open>\s\<close>.\<close>

definition is_whitespace :: "char \<Rightarrow> bool" where
  "is_whitespace c \<longleftrightarrow>
     c = CHR 0x09 \<or> c = LF \<or> c = CHR 0x0B \<or> c = CHR 0x0C \<or> c = CR \<or> c = CHR 0x20 \<or> c = CHR 0xA0"

text \<open>The characters that \<open>.\<close> does not match.\<close>

definition is_line_terminator :: "char \<Rightarrow> bool" where
  "is_line_terminator c \<longleftrightarrow> c = LF \<or> c = CR"

text \<open>
  \<open>s.replace(/[...]/g, r)\<close> for a one-character pattern: every character in the class
  \<open>P\<close> is replaced by \<open>r c\<close>, where \<open>r c\<close> is the replacement text with \<open>$&\<close> standing
  for the matched character \<open>c\<close>.
\<close>

definition replace_chars :: "(char \<Rightarrow> bool) \<Rightarrow> (char \<Rightarrow> string) \<Rightarrow> string \<Rightarrow> string" where
  "replace_chars P r s = concat (map (\<lambda>c. if P c then r c else [c]) s)"

text \<open>
  \<open>s.replace(/X+/g, l$&r)\<close> for a one-character class \<open>X\<close>: every maximal run of
  characters in \<open>P\<close> is wrapped in \<open>l\<close> and \<open>r\<close> (\<open>+\<close> is greedy and matches do not
  overlap).
\<close>

function replace_runs :: "(char \<Rightarrow> bool) \<Rightarrow> string \<Rightarrow> string \<Rightarrow> string \<Rightarrow> string" where
  "replace_runs P l r [] = []"
| "replace_runs P l r (c # cs) =
     (if P c then l @ c # takeWhile P cs @ r @ replace_runs P l r (dropWhile P cs)
      else c # replace_runs P l r cs)"
  by pat_completeness auto
termination
  by (relation "measure (\<lambda>(P, l, r, s). length s)")
     (auto simp: length_dropWhile_le less_Suc_eq_le)

text \<open>
  \<open>s.replace(/ab/g, r)\<close> for a two-character literal pattern: scanning from the left,
  every occurrence of \<open>a\<close> followed by \<open>b\<close> is replaced by \<open>r\<close> and the scan resumes
  after it.
\<close>

fun replace_pair :: "char \<Rightarrow> char \<Rightarrow> string \<Rightarrow> string \<Rightarrow> string" where
  "replace_pair a b r (x # y # s) =
     (if x = a \<and> y = b then r @ replace_pair a b r s else x # replace_pair a b r (y # s))"
| "replace_pair a b r s = s"

text \<open>
  \<open>s.replace(/c$/g, r)\<close>: without the \<open>m\<close> flag \<open>$\<close> is the end of the input, so the
  only possible match is a final \<open>c\<close>.
\<close>

definition replace_trailing :: "char \<Rightarrow> string \<Rightarrow> string \<Rightarrow> string" where
  "replace_trailing c r s = (if s \<noteq> [] \<and> last s = c then butlast s @ r else s)"

text \<open>
  \<open>s.replace(/\r?\n/, '^$&')\<close>: no \<open>g\<close> flag, so only the leftmost match (a LF, together
  with a CR directly before it) is replaced, by a caret followed by the match itself.
\<close>

fun replace_first_line_return :: "string \<Rightarrow> string" where
  "replace_first_line_return [] = []"
| "replace_first_line_return (c # cs) =
     (if c = CR \<and> cs \<noteq> [] \<and> hd cs = LF then CARET # c # cs
      else if c = LF then CARET # c # cs
      else c # replace_first_line_return cs)"

text \<open>\<open>/lit$/.test(s)\<close>: the input ends with the literal.\<close>

definition ends_with :: "string \<Rightarrow> string \<Rightarrow> bool" where
  "ends_with lit s \<longleftrightarrow> length lit \<le> length s \<and> drop (length s - length lit) s = lit"

text \<open>
  \<open>/lit(.exe)?$/.test(s)\<close>: the input ends with the literal, or with the literal, one
  character that is not a line terminator, and \<open>exe\<close>.
\<close>

definition test_opt_exe_end :: "string \<Rightarrow> string \<Rightarrow> bool" where
  "test_opt_exe_end lit s \<longleftrightarrow>
     ends_with lit s \<or>
     (4 \<le> length s \<and> drop (length s - 3) s = ''exe'' \<and>
      \<not> is_line_terminator (s ! (length s - 4)) \<and>
      ends_with lit (take (length s - 4) s))"

text \<open>
  The \<open>i\<close> flag compares canonicalised characters. The patterns of the sources hold
  ASCII letters only, and no code unit outside ASCII canonicalises into ASCII, so
  folding the ASCII letters of the input to lower case and matching the lower-case
  pattern is the same test.
\<close>

definition to_lower_ascii :: "char \<Rightarrow> char" where
  "to_lower_ascii c =
     (case map_of (zip ''ABCDEFGHIJKLMNOPQRSTUVWXYZ'' ''abcdefghijklmnopqrstuvwxyz'') c of
        Some l \<Rightarrow> l
      | None \<Rightarrow> c)"

definition test_opt_exe_end_i :: "string \<Rightarrow> string \<Rightarrow> bool" where
  "test_opt_exe_end_i lit s \<longleftrightarrow>
     ends_with lit (map to_lower_ascii s) \<or>
     (4 \<le> length s \<and> drop (length s - 3) (map to_lower_ascii s) = ''exe'' \<and>
      \<not> is_line_terminator (s ! (length s - 4)) \<and>
      ends_with lit (take (length s - 4) (map to_lower_ascii s)))"

text \<open>\<open>/lit/.test(s)\<close>: the literal occurs somewhere in the input.\<close>

fun contains :: "string \<Rightarrow> string \<Rightarrow> bool" where
  "contains lit [] \<longleftrightarrow> lit = []"
| "contains lit (c # cs) \<longleftrightarrow> take (length lit) (c # cs) = lit \<or> contains lit cs"


section \<open>shell-quoting.ts\<close>

datatype ShellQuoting = Escape | Strong | Weak

record ShellQuotedString =
  "value" :: string
  quoting :: ShellQuoting

text \<open>An argument is \<open>string | ShellQuotedString\<close>.\<close>

datatype ShellArg = Plain string | Quoted ShellQuotedString

text \<open>
  \<open>ShellQuotingFunctions\<close>: each of the three members is optional; \<open>None\<close> is a member
  that is not a function.
\<close>

record ShellQuotingFunctions =
  escape :: "(string \<Rightarrow> string) option"
  strong :: "(string \<Rightarrow> string) option"
  weak :: "(string \<Rightarrow> string) option"

text \<open>\<open>options[quotationStyle]\<close>.\<close>

fun quoting_member :: "ShellQuotingFunctions \<Rightarrow> ShellQuoting \<Rightarrow> (string \<Rightarrow> string) option" where
  "quoting_member options Escape = escape options"
| "quoting_member options Strong = strong options"
| "quoting_member options Weak = weak options"

definition escapeForShell :: "ShellArg \<Rightarrow> ShellQuotingFunctions \<Rightarrow> string" where
  "escapeForShell arg options =
     (let (quotationStyle, v) =
            (case arg of Plain s \<Rightarrow> (Strong, s) | Quoted q \<Rightarrow> (quoting q, value q))
      in case quoting_member options quotationStyle of
           Some f \<Rightarrow> f v
         | None \<Rightarrow> v)"

definition createShellCommandLine :: "ShellArg list \<Rightarrow> ShellQuotingFunctions \<Rightarrow> string" where
  "createShellCommandLine args options = join '' '' (map (\<lambda>arg. escapeForShell arg options) args)"

subsection \<open>BashQuotingFunctions\<close>

text \<open>The class \<open>[\s\\|(){}<>$&;"']\<close>.\<close>

definition bash_special :: "char \<Rightarrow> bool" where
  "bash_special c \<longleftrightarrow> is_whitespace c \<or> c \<in> set (BSLASH # DQUOTE # SQUOTE # ''|(){}<>$&;'')"

definition bash_escape :: "string \<Rightarrow> string" where
  "bash_escape arg = replace_chars bash_special (\<lambda>c. [BSLASH, c]) arg"

definition bash_strong :: "string \<Rightarrow> string" where
  "bash_strong arg =
     [SQUOTE] @ replace_runs (\<lambda>c. c = SQUOTE) [SQUOTE, DQUOTE] [DQUOTE, SQUOTE] arg @ [SQUOTE]"

definition bash_weak :: "string \<Rightarrow> string" where
  "bash_weak arg =
     [DQUOTE] @
     replace_trailing BSLASH [BSLASH, BSLASH]
       (replace_chars (\<lambda>c. c = DQUOTE) (\<lambda>c. [BSLASH, DQUOTE])
         (replace_pair BSLASH DQUOTE [BSLASH, BSLASH, DQUOTE] arg)) @
     [DQUOTE]"

definition BashQuotingFunctions :: ShellQuotingFunctions where
  "BashQuotingFunctions =
     \<lparr>escape = Some bash_escape, strong = Some bash_strong, weak = Some bash_weak\<rparr>"

subsection \<open>CmdQuotingFunctions\<close>

text \<open>The class of percent, ampersand, backslash, \<open><\<close>, \<open>>\<close>, caret, bar and double quote.\<close>

definition cmd_special :: "char \<Rightarrow> bool" where
  "cmd_special c \<longleftrightarrow> c \<in> set (BSLASH # DQUOTE # ''%&<>^|'')"

definition cmd_escape :: "string \<Rightarrow> string" where
  "cmd_escape arg =
     replace_runs is_whitespace [DQUOTE] [DQUOTE]
       (replace_chars cmd_special (\<lambda>c. [CARET, c]) arg)"

text \<open>
  The second replacement of \<open>weak\<close> is \<open>.replace(/\\$/g, '\\')\<close>, whose replacement
  text is one backslash; the last replacement is applied to the quoted string as a whole.
\<close>

definition cmd_weak :: "string \<Rightarrow> string" where
  "cmd_weak arg =
     replace_first_line_return
       ([DQUOTE] @
        replace_trailing BSLASH [BSLASH]
          (replace_chars (\<lambda>c. c = DQUOTE) (\<lambda>c. [BSLASH, DQUOTE]) arg) @
        [DQUOTE])"

text \<open>
  \<open>strong\<close> calls \<open>this.weak\<close>; at every call in the sources \<open>this\<close> is
  \<open>CmdQuotingFunctions\<close> itself.
\<close>

definition cmd_strong :: "string \<Rightarrow> string" where
  "cmd_strong arg = replace_chars (\<lambda>c. c = CHR ''%'') (\<lambda>c. [DQUOTE, CHR ''%'', DQUOTE]) (cmd_weak arg)"

definition CmdQuotingFunctions :: ShellQuotingFunctions where
  "CmdQuotingFunctions =
     \<lparr>escape = Some cmd_escape, strong = Some cmd_strong, weak = Some cmd_weak\<rparr>"

subsection \<open>PowershellQuotingFunctions\<close>

text \<open>The class \<open>[`|{}()<>;"' ]\<close>.\<close>

definition powershell_special :: "char \<Rightarrow> bool" where
  "powershell_special c \<longleftrightarrow> c \<in> set (BTICK # DQUOTE # SQUOTE # ''|{}()<>; '')"

definition powershell_escape :: "string \<Rightarrow> string" where
  "powershell_escape arg = replace_chars powershell_special (\<lambda>c. [BTICK, c]) arg"

definition powershell_strong :: "string \<Rightarrow> string" where
  "powershell_strong arg =
     [SQUOTE] @ replace_chars (\<lambda>c. c = SQUOTE) (\<lambda>c. [SQUOTE, SQUOTE]) arg @ [SQUOTE]"

definition powershell_weak :: "string \<Rightarrow> string" where
  "powershell_weak arg =
     [DQUOTE] @
     replace_trailing BTICK [BTICK, BTICK]
       (replace_chars (\<lambda>c. c = DQUOTE) (\<lambda>c. [BTICK, DQUOTE])
         (replace_pair BTICK DQUOTE [BTICK, BTICK, DQUOTE] arg)) @
     [DQUOTE]"

definition PowershellQuotingFunctions :: ShellQuotingFunctions where
  "PowershellQuotingFunctions =
     \<lparr>escape = Some powershell_escape, strong = Some powershell_strong,
      weak = Some powershell_weak\<rparr>"


section \<open>run-in-terminal.ts\<close>

text \<open>
  \<open>TerminalProcessInfo\<close> is declared outside the sources at hand; the test suite builds
  it with the members \<open>executable\<close> and \<open>arguments\<close>.
\<close>

record TerminalProcessInfo =
  executable :: string
  arguments :: "string list"

text \<open>
  \<open>env\<close> is an optional object; it is modelled by the list of its entries in the order
  of \<open>Object.keys\<close>, the order in which the generator \<open>entries\<close> yields them. A null
  value is \<open>None\<close>.
\<close>

record CommandLineOptions =
  cwd :: string
  args :: "string list"
  env :: "(string \<times> string option) list option"

text \<open>The three tests on \<open>executable\<close>.\<close>

definition test_bash :: "string \<Rightarrow> bool" where
  \<comment> \<open>\<open>/bash(.exe)?$/\<close>\<close>
  "test_bash e \<longleftrightarrow> test_opt_exe_end ''bash'' e"

definition test_powershell_i :: "string \<Rightarrow> bool" where
  \<comment> \<open>\<open>/(ps|pwsh|powershell)(.exe)?$/i\<close>\<close>
  "test_powershell_i e \<longleftrightarrow>
     test_opt_exe_end_i ''ps'' e \<or> test_opt_exe_end_i ''pwsh'' e \<or>
     test_opt_exe_end_i ''powershell'' e"

definition test_cmd_i :: "string \<Rightarrow> bool" where
  \<comment> \<open>\<open>/cmd(.exe)?$/i\<close>\<close>
  "test_cmd_i e \<longleftrightarrow> test_opt_exe_end_i ''cmd'' e"

text \<open>\<open>args2\<close>: every argument is quoted strongly.\<close>

definition args2 :: "string list \<Rightarrow> ShellArg list" where
  "args2 as = map (\<lambda>v. Quoted \<lparr>value = v, quoting = Strong\<rparr>) as"

subsection \<open>The bash branch\<close>

text \<open>The body of the loop over the entries of \<open>env\<close>: \<open>command += ...\<close>.\<close>

definition bash_env_step :: "string \<Rightarrow> string \<times> string option \<Rightarrow> string" where
  "bash_env_step command entry =
     (case entry of
        (key, None) \<Rightarrow> command @ '' -u '' @ bash_strong key
      | (key, Some v) \<Rightarrow> command @ '' '' @ bash_strong (key @ ''='' @ v))"

definition prepareCommandLine_bash :: "CommandLineOptions \<Rightarrow> string" where
  "prepareCommandLine_bash options =
     (let command = [];
          command = (if cwd options \<noteq> [] then command @ ''cd '' @ bash_strong (cwd options) @ '' && ''
                     else command);
          command = (case env options of
                       None \<Rightarrow> command
                     | Some entries \<Rightarrow> foldl bash_env_step (command @ ''env'') entries @ '' '')
      in command @ createShellCommandLine (args2 (args options)) BashQuotingFunctions)"

subsection \<open>The powershell branch\<close>

text \<open>\<open>key.replace(/`/g, '````').replace(/\?/g, '``?')\<close>.\<close>

definition powershell_quotedKey :: "string \<Rightarrow> string" where
  "powershell_quotedKey key =
     replace_chars (\<lambda>c. c = CHR ''?'') (\<lambda>c. [BTICK, BTICK, CHR ''?''])
       (replace_chars (\<lambda>c. c = BTICK) (\<lambda>c. [BTICK, BTICK, BTICK, BTICK]) key)"

definition powershell_env_step :: "string \<Rightarrow> string \<times> string option \<Rightarrow> string" where
  "powershell_env_step command entry =
     (case entry of
        (key, None) \<Rightarrow> command @ ''Remove-Item ${env:'' @ powershell_quotedKey key @ ''}; ''
      | (key, Some v) \<Rightarrow>
          command @ ''${env:'' @ powershell_quotedKey key @ ''}='' @ powershell_strong v @ ''; '')"

definition prepareCommandLine_powershell :: "CommandLineOptions \<Rightarrow> string" where
  "prepareCommandLine_powershell options =
     (let command = [];
          command = (if cwd options \<noteq> [] then command @ ''cd '' @ powershell_strong (cwd options) @ ''; ''
                     else command);
          command = (case env options of
                       None \<Rightarrow> command
                     | Some entries \<Rightarrow> foldl powershell_env_step command entries)
      in command @ ''& '' @ createShellCommandLine (args2 (args options)) PowershellQuotingFunctions)"

subsection \<open>The cmd branch\<close>

definition cmd_env_step :: "string \<Rightarrow> string \<times> string option \<Rightarrow> string" where
  "cmd_env_step command entry =
     (case entry of
        (key, None) \<Rightarrow> command @ cmd_strong (''set '' @ key @ ''='' @ [DQUOTE, DQUOTE] @ '' && '')
      | (key, Some v) \<Rightarrow> command @ ''set '' @ cmd_strong (key @ ''='' @ v) @ '' && '')"

definition prepareCommandLine_cmd :: "CommandLineOptions \<Rightarrow> string" where
  "prepareCommandLine_cmd options =
     (let command = [];
          command = (if cwd options \<noteq> [] then command @ ''cd '' @ cmd_strong (cwd options) @ '' && ''
                     else command);
          command = (case env options of
                       None \<Rightarrow> command
                     | Some entries \<Rightarrow> foldl cmd_env_step (command @ ''cmd /C '' @ [DQUOTE]) entries);
          command = command @ createShellCommandLine (args2 (args options)) CmdQuotingFunctions;
          command = (case env options of None \<Rightarrow> command | Some entries \<Rightarrow> command @ [DQUOTE])
      in command)"

subsection \<open>prepareCommandLine\<close>

text \<open>
  The fall-through at the end of the function: one call of \<open>console.warn\<close>, then the
  arguments joined by a space.
\<close>

definition prepareCommandLine_unknown :: "string option \<Rightarrow> CommandLineOptions \<Rightarrow> string \<times> string list" where
  "prepareCommandLine_unknown exe options =
     (join '' '' (args options),
      [''Unknown shell, could not escape arguments: '' @
         (case exe of None \<Rightarrow> ''undefined'' | Some e \<Rightarrow> if e \<noteq> [] then e else ''undefined'')])"

text \<open>
  The result is the returned command line together with the messages passed to
  \<open>console.warn\<close> during the call. \<open>processInfo && processInfo.executable\<close> is undefined
  when \<open>processInfo\<close> is; \<open>if (executable)\<close> holds for a non-empty string.
\<close>

definition prepareCommandLine :: "TerminalProcessInfo option \<Rightarrow> CommandLineOptions \<Rightarrow> string \<times> string list" where
  "prepareCommandLine processInfo options =
     (let exe = map_option executable processInfo
      in case exe of
           None \<Rightarrow> prepareCommandLine_unknown exe options
         | Some e \<Rightarrow>
             if e \<noteq> [] then
               if test_bash e then (prepareCommandLine_bash options, [])
               else if test_powershell_i e then (prepareCommandLine_powershell options, [])
               else if test_cmd_i e then (prepareCommandLine_cmd options, [])
               else prepareCommandLine_unknown exe options
             else prepareCommandLine_unknown exe options)"


section \<open>process-task-runner.ts\<close>

text \<open>
  The part of \<open>getResolvedCommand\<close> that, for a task of type shell, picks
  \<open>quotingFunctions\<close> and \<open>execArgs\<close> from the shell's \<open>command\<close>. The tests are
  \<open>/bash(.exe)?$/\<close>, \<open>/cmd(.exe)?$/\<close> and \<open>/(ps|pwsh|powershell)(.exe)?/\<close>; the last has no
  \<open>$\<close>, so it holds as soon as one of the three names occurs in \<open>command\<close>.
\<close>

definition getResolvedCommand_quoting :: "string \<Rightarrow> ShellQuotingFunctions \<times> string list" where
  "getResolvedCommand_quoting command =
     (if test_opt_exe_end ''bash'' command then (BashQuotingFunctions, [''-l'', ''-c''])
      else if test_opt_exe_end ''cmd'' command then (CmdQuotingFunctions, [''/c''])
      else if contains ''ps'' command \<or> contains ''pwsh'' command \<or> contains ''powershell'' command
        then (PowershellQuotingFunctions, [''-c''])
      else (\<lparr>escape = None, strong = None, weak = None\<rparr>, []))"


section \<open>The dialect either place selects\<close>

text \<open>
  The sources have no type for the dialect: each place tests the executable and enters
  a branch. The two functions below name the branch entered, with the tests and their
  order as in \<open>prepareCommandLine\<close> and in \<open>getResolvedCommand\<close>.
\<close>

datatype Dialect = Bash | Cmd | Powershell | Unknown

definition prepareCommandLine_dialect :: "TerminalProcessInfo option \<Rightarrow> Dialect" where
  "prepareCommandLine_dialect processInfo =
     (case map_option executable processInfo of
        None \<Rightarrow> Unknown
      | Some e \<Rightarrow>
          if e \<noteq> [] then
            if test_bash e then Bash
            else if test_powershell_i e then Powershell
            else if test_cmd_i e then Cmd
            else Unknown
          else Unknown)"

definition getResolvedCommand_dialect :: "string \<Rightarrow> Dialect" where
  "getResolvedCommand_dialect command =
     (if test_opt_exe_end ''bash'' command then Bash
      else if test_opt_exe_end ''cmd'' command then Cmd
      else if contains ''ps'' command \<or> contains ''pwsh'' command \<or> contains ''powershell'' command
        then Powershell
      else Unknown)"


section \<open>Safe input\<close>

text \<open>
  The strings matching \<open>^[A-Za-z0-9]*$\<close> are those all of whose characters satisfy
  \<open>is_alnum\<close>.
\<close>

definition is_alnum :: "char \<Rightarrow> bool" where
  "is_alnum c \<longleftrightarrow>
     c \<in> set ''ABCDEFGHIJKLMNOPQRSTUVWXYZabcdefghijklmnopqrstuvwxyz0123456789''"


section \<open>The reader of the Bash line\<close>










section \<open>Facts about the tests on the executable\<close>

lemma ends_withD: "ends_with lit s \<Longrightarrow> \<exists>p. s = p @ lit"
  unfolding ends_with_def by (metis append_take_drop_id)

lemma ends_withI: "ends_with lit (p @ lit)"
  by (simp add: ends_with_def)

lemma ends_with_iff: "ends_with lit s \<longleftrightarrow> (\<exists>p. s = p @ lit)"
  using ends_withD ends_withI by blast

lemma ends_with_both:
  assumes "ends_with l1 s" and "ends_with l2 s" and "length l1 \<le> length l2"
  shows "ends_with l1 l2"
proof -
  from assms(1) obtain p where s1: "s = p @ l1"
    by (auto simp: ends_with_iff)
  from assms(2) obtain q where s2: "s = q @ l2"
    by (auto simp: ends_with_iff)
  from s1 s2 have "p @ l1 = q @ l2" by simp
  then consider us where "us @ l1 = l2" | us where "l1 = us @ l2"
    by (auto simp: append_eq_append_conv2)
  then show ?thesis
  proof cases
    case 1
    then show ?thesis by (auto simp: ends_with_iff)
  next
    case 2
    with assms(3) have "us = []" by auto
    with 2 show ?thesis by (simp add: ends_with_def)
  qed
qed

lemma ends_with_comparable:
  "ends_with l1 s \<Longrightarrow> ends_with l2 s \<Longrightarrow> ends_with l1 l2 \<or> ends_with l2 l1"
  using ends_with_both [of l1 s l2] ends_with_both [of l2 s l1] by (cases "length l1 \<le> length l2") auto

lemma ends_with_map: "ends_with l s \<Longrightarrow> ends_with (map f l) (map f s)"
  by (auto simp: ends_with_iff)

lemma exe_tail:
  assumes "4 \<le> length t" and "drop (length t - 3) t = ''exe''"
    and "ends_with lit (take (length t - 4) t)"
  shows "\<exists>c. ends_with (lit @ c # ''exe'') t"
proof -
  from assms(3) obtain p where p: "take (length t - 4) t = p @ lit"
    by (auto simp: ends_with_iff)
  have "t = take (length t - 4) t @ drop (length t - 4) t" by simp
  moreover have "drop (length t - 4) t = t ! (length t - 4) # drop (Suc (length t - 4)) t"
    using assms(1) by (intro Cons_nth_drop_Suc [symmetric]) simp
  moreover have "Suc (length t - 4) = length t - 3" using assms(1) by simp
  ultimately have "t = p @ lit @ t ! (length t - 4) # ''exe''"
    using p assms(2) by (metis append.assoc)
  then have "t = p @ (lit @ t ! (length t - 4) # ''exe'')" by simp
  then show ?thesis using ends_with_iff by blast
qed

lemma test_opt_exe_endD:
  "test_opt_exe_end lit s \<Longrightarrow> ends_with lit s \<or> (\<exists>c. ends_with (lit @ c # ''exe'') s)"
  unfolding test_opt_exe_end_def using exe_tail by blast

lemma test_opt_exe_end_iD:
  assumes "test_opt_exe_end_i lit s"
  shows "ends_with lit (map to_lower_ascii s) \<or>
         (\<exists>c. ends_with (lit @ c # ''exe'') (map to_lower_ascii s))"
proof -
  let ?t = "map to_lower_ascii s"
  from assms consider "ends_with lit ?t"
    | "4 \<le> length ?t" "drop (length ?t - 3) ?t = ''exe''" "ends_with lit (take (length ?t - 4) ?t)"
    unfolding test_opt_exe_end_i_def by (auto simp: take_map)
  then show ?thesis using exe_tail [of ?t lit] by cases blast+
qed

lemma test_bash_lowerD:
  assumes "test_bash e"
  shows "ends_with ''bash'' (map to_lower_ascii e) \<or>
         (\<exists>c. ends_with (''bash'' @ c # ''exe'') (map to_lower_ascii e))"
proof -
  from assms consider "ends_with ''bash'' e" | c where "ends_with (''bash'' @ c # ''exe'') e"
    unfolding test_bash_def using test_opt_exe_endD by blast
  then show ?thesis
  proof cases
    case 1
    from ends_with_map [OF this, of to_lower_ascii] show ?thesis
      by (simp add: to_lower_ascii_def)
  next
    case 2
    from ends_with_map [OF this, of to_lower_ascii]
    have "ends_with (''bash'' @ to_lower_ascii c # ''exe'') (map to_lower_ascii e)"
      by (simp add: to_lower_ascii_def)
    then show ?thesis by blast
  qed
qed

lemma tails_bash_ps:
  "ends_with ''bash'' t \<or> (\<exists>c. ends_with (''bash'' @ c # ''exe'') t) \<Longrightarrow>
   ends_with ''ps'' t \<or> (\<exists>c. ends_with (''ps'' @ c # ''exe'') t) \<Longrightarrow> False"
  by (elim disjE exE; drule (1) ends_with_comparable; simp add: ends_with_def)

lemma tails_bash_pwsh:
  "ends_with ''bash'' t \<or> (\<exists>c. ends_with (''bash'' @ c # ''exe'') t) \<Longrightarrow>
   ends_with ''pwsh'' t \<or> (\<exists>c. ends_with (''pwsh'' @ c # ''exe'') t) \<Longrightarrow> False"
  by (elim disjE exE; drule (1) ends_with_comparable; simp add: ends_with_def)

lemma tails_bash_powershell:
  "ends_with ''bash'' t \<or> (\<exists>c. ends_with (''bash'' @ c # ''exe'') t) \<Longrightarrow>
   ends_with ''powershell'' t \<or> (\<exists>c. ends_with (''powershell'' @ c # ''exe'') t) \<Longrightarrow> False"
  by (elim disjE exE; drule (1) ends_with_comparable; simp add: ends_with_def)

lemma tails_bash_cmd:
  "ends_with ''bash'' t \<or> (\<exists>c. ends_with (''bash'' @ c # ''exe'') t) \<Longrightarrow>
   ends_with ''cmd'' t \<or> (\<exists>c. ends_with (''cmd'' @ c # ''exe'') t) \<Longrightarrow> False"
  by (elim disjE exE; drule (1) ends_with_comparable; simp add: ends_with_def)

lemma tails_ps_cmd:
  "ends_with ''ps'' t \<or> (\<exists>c. ends_with (''ps'' @ c # ''exe'') t) \<Longrightarrow>
   ends_with ''cmd'' t \<or> (\<exists>c. ends_with (''cmd'' @ c # ''exe'') t) \<Longrightarrow> False"
  by (elim disjE exE; drule (1) ends_with_comparable; simp add: ends_with_def)

lemma tails_pwsh_cmd:
  "ends_with ''pwsh'' t \<or> (\<exists>c. ends_with (''pwsh'' @ c # ''exe'') t) \<Longrightarrow>
   ends_with ''cmd'' t \<or> (\<exists>c. ends_with (''cmd'' @ c # ''exe'') t) \<Longrightarrow> False"
  by (elim disjE exE; drule (1) ends_with_comparable; simp add: ends_with_def)

lemma tails_powershell_cmd:
  "ends_with ''powershell'' t \<or> (\<exists>c. ends_with (''powershell'' @ c # ''exe'') t) \<Longrightarrow>
   ends_with ''cmd'' t \<or> (\<exists>c. ends_with (''cmd'' @ c # ''exe'') t) \<Longrightarrow> False"
  by (elim disjE exE; drule (1) ends_with_comparable; simp add: ends_with_def)

lemma bash_not_powershell: "test_bash e \<Longrightarrow> \<not> test_powershell_i e"
  unfolding test_powershell_i_def
  using test_bash_lowerD [of e] test_opt_exe_end_iD [of _ e]
    tails_bash_ps [of "map to_lower_ascii e"] tails_bash_pwsh [of "map to_lower_ascii e"]
    tails_bash_powershell [of "map to_lower_ascii e"]
  by blast

lemma bash_not_cmd: "test_bash e \<Longrightarrow> \<not> test_cmd_i e"
  unfolding test_cmd_i_def
  using test_bash_lowerD [of e] test_opt_exe_end_iD [of _ e] tails_bash_cmd [of "map to_lower_ascii e"]
  by blast

lemma powershell_not_cmd: "test_powershell_i e \<Longrightarrow> \<not> test_cmd_i e"
  unfolding test_cmd_i_def test_powershell_i_def
  using test_opt_exe_end_iD [of _ e] tails_ps_cmd [of "map to_lower_ascii e"]
    tails_pwsh_cmd [of "map to_lower_ascii e"] tails_powershell_cmd [of "map to_lower_ascii e"]
  by blast

lemma test_opt_exe_end_nonempty: "test_opt_exe_end (a # lit) e \<Longrightarrow> e \<noteq> []"
  by (auto simp: test_opt_exe_end_def ends_with_def)

lemma test_opt_exe_end_i_nonempty: "test_opt_exe_end_i (a # lit) e \<Longrightarrow> e \<noteq> []"
  by (auto simp: test_opt_exe_end_i_def ends_with_def)


section \<open>Quoting of safe input\<close>

lemma replace_chars_id: "\<forall>c\<in>set s. \<not> P c \<Longrightarrow> replace_chars P r s = s"
  by (induction s) (simp_all add: replace_chars_def)

lemma replace_runs_id: "\<forall>c\<in>set s. \<not> P c \<Longrightarrow> replace_runs P l r s = s"
  by (induction s) simp_all

lemma replace_chars_absent: "a \<notin> set s \<Longrightarrow> replace_chars (\<lambda>c. c = a) r s = s"
  by (rule replace_chars_id) auto

lemma replace_runs_absent: "a \<notin> set s \<Longrightarrow> replace_runs (\<lambda>c. c = a) l r s = s"
  by (rule replace_runs_id) auto

lemma replace_pair_id: "b \<notin> set s \<Longrightarrow> replace_pair a b r s = s"
  by (induction a b r s rule: replace_pair.induct) auto

lemma replace_trailing_id: "c \<notin> set s \<Longrightarrow> replace_trailing c r s = s"
  by (auto simp: replace_trailing_def)

lemma replace_first_line_return_id: "LF \<notin> set s \<Longrightarrow> replace_first_line_return s = s"
  by (induction s) (auto dest: hd_in_set)

lemma alnum_not_bash_special: "is_alnum c \<Longrightarrow> \<not> bash_special c"
  by (auto simp: is_alnum_def bash_special_def is_whitespace_def)

lemma alnum_not_cmd_special: "is_alnum c \<Longrightarrow> \<not> cmd_special c"
  by (auto simp: is_alnum_def cmd_special_def)

lemma alnum_not_powershell_special: "is_alnum c \<Longrightarrow> \<not> powershell_special c"
  by (auto simp: is_alnum_def powershell_special_def)

lemma alnum_not_whitespace: "is_alnum c \<Longrightarrow> \<not> is_whitespace c"
  by (auto simp: is_alnum_def is_whitespace_def)

lemma alnum_neq:
  "is_alnum c \<Longrightarrow> c \<noteq> SQUOTE \<and> c \<noteq> DQUOTE \<and> c \<noteq> BSLASH \<and> c \<noteq> BTICK \<and> c \<noteq> LF \<and> c \<noteq> CHR ''%''"
  by (auto simp: is_alnum_def)

lemma alnum_absent:
  assumes "\<forall>c\<in>set s. is_alnum c"
  shows "SQUOTE \<notin> set s" "DQUOTE \<notin> set s" "BSLASH \<notin> set s" "BTICK \<notin> set s" "LF \<notin> set s"
    "CHR ''%'' \<notin> set s"
  using assms alnum_neq by blast+

lemma bash_alnum:
  assumes "\<forall>c\<in>set s. is_alnum c"
  shows "bash_escape s = s" and "bash_strong s = [SQUOTE] @ s @ [SQUOTE]"
    and "bash_weak s = [DQUOTE] @ s @ [DQUOTE]"
proof -
  show "bash_escape s = s"
    unfolding bash_escape_def using assms alnum_not_bash_special by (intro replace_chars_id) blast
  show "bash_strong s = [SQUOTE] @ s @ [SQUOTE]"
    unfolding bash_strong_def using alnum_absent(1) [OF assms] by (simp add: replace_runs_absent)
  show "bash_weak s = [DQUOTE] @ s @ [DQUOTE]"
    unfolding bash_weak_def using alnum_absent(2,3) [OF assms]
    by (simp add: replace_pair_id replace_chars_absent replace_trailing_id)
qed

lemma cmd_alnum:
  assumes "\<forall>c\<in>set s. is_alnum c"
  shows "cmd_escape s = s" and "cmd_strong s = [DQUOTE] @ s @ [DQUOTE]"
    and "cmd_weak s = [DQUOTE] @ s @ [DQUOTE]"
proof -
  have "replace_chars cmd_special (\<lambda>c. [CARET, c]) s = s"
    using assms alnum_not_cmd_special by (intro replace_chars_id) blast
  moreover have "replace_runs is_whitespace [DQUOTE] [DQUOTE] s = s"
    using assms alnum_not_whitespace by (intro replace_runs_id) blast
  ultimately show "cmd_escape s = s" by (simp add: cmd_escape_def)
  show w: "cmd_weak s = [DQUOTE] @ s @ [DQUOTE]"
    unfolding cmd_weak_def using alnum_absent(2,3,5) [OF assms]
    by (simp add: replace_chars_absent replace_trailing_id replace_first_line_return_id)
  show "cmd_strong s = [DQUOTE] @ s @ [DQUOTE]"
    unfolding cmd_strong_def w using alnum_absent(6) [OF assms]
    by (simp add: replace_chars_absent)
qed

lemma powershell_alnum:
  assumes "\<forall>c\<in>set s. is_alnum c"
  shows "powershell_escape s = s" and "powershell_strong s = [SQUOTE] @ s @ [SQUOTE]"
    and "powershell_weak s = [DQUOTE] @ s @ [DQUOTE]"
proof -
  show "powershell_escape s = s"
    unfolding powershell_escape_def using assms alnum_not_powershell_special
    by (intro replace_chars_id) blast
  show "powershell_strong s = [SQUOTE] @ s @ [SQUOTE]"
    unfolding powershell_strong_def using alnum_absent(1) [OF assms] by (simp add: replace_chars_absent)
  show "powershell_weak s = [DQUOTE] @ s @ [DQUOTE]"
    unfolding powershell_weak_def using alnum_absent(2,4) [OF assms]
    by (simp add: replace_pair_id replace_chars_absent replace_trailing_id)
qed

lemma escapeForShell_Quoted:
  "escapeForShell (Quoted \<lparr>value = v, quoting = q\<rparr>) options =
     (case quoting_member options q of Some f \<Rightarrow> f v | None \<Rightarrow> v)"
  by (simp add: escapeForShell_def)

text \<open>
  Claim C2. On a string of ASCII letters and digits only (the empty string included),
  each of the three quoters leaves the string unchanged in mode escape, wraps it in
  its strong delimiters in mode strong (single quotes for Bash and Powershell, double
  quotes for Cmd) and wraps it in double quotes in mode weak.
\<close>

theorem quoting_alphanumeric_input:
  assumes "list_all is_alnum s"
  shows "escapeForShell (Quoted \<lparr>value = s, quoting = Escape\<rparr>) BashQuotingFunctions = s
       \<and> escapeForShell (Quoted \<lparr>value = s, quoting = Strong\<rparr>) BashQuotingFunctions = [SQUOTE] @ s @ [SQUOTE]
       \<and> escapeForShell (Quoted \<lparr>value = s, quoting = Weak\<rparr>) BashQuotingFunctions = [DQUOTE] @ s @ [DQUOTE]
       \<and> escapeForShell (Quoted \<lparr>value = s, quoting = Escape\<rparr>) CmdQuotingFunctions = s
       \<and> escapeForShell (Quoted \<lparr>value = s, quoting = Strong\<rparr>) CmdQuotingFunctions = [DQUOTE] @ s @ [DQUOTE]
       \<and> escapeForShell (Quoted \<lparr>value = s, quoting = Weak\<rparr>) CmdQuotingFunctions = [DQUOTE] @ s @ [DQUOTE]
       \<and> escapeForShell (Quoted \<lparr>value = s, quoting = Escape\<rparr>) PowershellQuotingFunctions = s
       \<and> escapeForShell (Quoted \<lparr>value = s, quoting = Strong\<rparr>) PowershellQuotingFunctions = [SQUOTE] @ s @ [SQUOTE]
       \<and> escapeForShell (Quoted \<lparr>value = s, quoting = Weak\<rparr>) PowershellQuotingFunctions = [DQUOTE] @ s @ [DQUOTE]"
proof -
  from assms have a: "\<forall>c\<in>set s. is_alnum c" by (simp add: list_all_iff)
  show ?thesis
    using bash_alnum [OF a] cmd_alnum [OF a] powershell_alnum [OF a]
    by (simp add: escapeForShell_Quoted BashQuotingFunctions_def CmdQuotingFunctions_def
        PowershellQuotingFunctions_def)
qed

theorem quoting_alphanumeric_input_witness:
  "list_all is_alnum ''Ab0z9''
   \<and> escapeForShell (Quoted \<lparr>value = ''Ab0z9'', quoting = Escape\<rparr>) CmdQuotingFunctions = ''Ab0z9''
   \<and> escapeForShell (Quoted \<lparr>value = ''Ab0z9'', quoting = Strong\<rparr>) BashQuotingFunctions = [SQUOTE] @ ''Ab0z9'' @ [SQUOTE]
   \<and> escapeForShell (Quoted \<lparr>value = ''Ab0z9'', quoting = Weak\<rparr>) PowershellQuotingFunctions = [DQUOTE] @ ''Ab0z9'' @ [DQUOTE]"
proof -
  have h: "list_all is_alnum ''Ab0z9''" by (simp add: is_alnum_def)
  show ?thesis
    using h quoting_alphanumeric_input [OF h] by simp
qed


section \<open>Missing quoting functions and the unknown shell\<close>

text \<open>
  Claim C8. When the record of quoting functions has no function for the requested
  mode, \<open>escapeForShell\<close> returns the value as it is, for a quoted string in any of the
  three modes and for a plain string (whose mode is strong); with the empty record
  every mode is the identity. \<open>escapeForShell\<close> has no failing branch: it is a total
  function to strings.
\<close>

theorem escapeForShell_missing_function:
  assumes "quoting_member options q = None"
  shows "escapeForShell (Quoted \<lparr>value = v, quoting = q\<rparr>) options = v
       \<and> (q = Strong \<longrightarrow> escapeForShell (Plain v) options = v)
       \<and> escapeForShell (Quoted \<lparr>value = v, quoting = q\<rparr>) \<lparr>escape = None, strong = None, weak = None\<rparr> = v
       \<and> escapeForShell (Plain v) \<lparr>escape = None, strong = None, weak = None\<rparr> = v"
  using assms by (cases q) (simp_all add: escapeForShell_def)

theorem escapeForShell_missing_function_witness:
  "quoting_member \<lparr>escape = Some bash_escape, strong = None, weak = Some bash_weak\<rparr> Strong = None
   \<and> escapeForShell (Quoted \<lparr>value = ''a $b'', quoting = Strong\<rparr>)
        \<lparr>escape = Some bash_escape, strong = None, weak = Some bash_weak\<rparr> = ''a $b''
   \<and> escapeForShell (Plain ''a $b'')
        \<lparr>escape = Some bash_escape, strong = None, weak = Some bash_weak\<rparr> = ''a $b''
   \<and> escapeForShell (Quoted \<lparr>value = ''a $b'', quoting = Strong\<rparr>)
        \<lparr>escape = None, strong = None, weak = None\<rparr> = ''a $b''"
proof -
  have h: "quoting_member \<lparr>escape = Some bash_escape, strong = None, weak = Some bash_weak\<rparr> Strong = None"
    by simp
  show ?thesis
    using h escapeForShell_missing_function [OF h, of "''a $b''"] by simp
qed

lemma test_bash_nonempty: "test_bash e \<Longrightarrow> e \<noteq> []"
  unfolding test_bash_def by (rule test_opt_exe_end_nonempty [of "CHR ''b''" "''ash''"]) simp

lemma test_powershell_i_nonempty: "test_powershell_i e \<Longrightarrow> e \<noteq> []"
  unfolding test_powershell_i_def
  using test_opt_exe_end_i_nonempty [of "CHR ''p''" "''s''" e]
    test_opt_exe_end_i_nonempty [of "CHR ''p''" "''wsh''" e]
    test_opt_exe_end_i_nonempty [of "CHR ''p''" "''owershell''" e]
  by auto

lemma test_cmd_i_nonempty: "test_cmd_i e \<Longrightarrow> e \<noteq> []"
  unfolding test_cmd_i_def
  using test_opt_exe_end_i_nonempty [of "CHR ''c''" "''md''" e] by simp

lemma prepareCommandLine_bash_detected:
  "test_bash (executable p) \<Longrightarrow>
   prepareCommandLine (Some p) options = (prepareCommandLine_bash options, [])"
  by (simp add: prepareCommandLine_def test_bash_nonempty)

lemma prepareCommandLine_powershell_detected:
  "test_powershell_i (executable p) \<Longrightarrow>
   prepareCommandLine (Some p) options = (prepareCommandLine_powershell options, [])"
  using bash_not_powershell [of "executable p"]
  by (auto simp: prepareCommandLine_def test_powershell_i_nonempty)

lemma prepareCommandLine_cmd_detected:
  "test_cmd_i (executable p) \<Longrightarrow>
   prepareCommandLine (Some p) options = (prepareCommandLine_cmd options, [])"
  using bash_not_cmd [of "executable p"] powershell_not_cmd [of "executable p"]
  by (auto simp: prepareCommandLine_def test_cmd_i_nonempty)

lemma prepareCommandLine_not_detected:
  "\<not> test_bash (executable p) \<Longrightarrow> \<not> test_powershell_i (executable p) \<Longrightarrow>
   \<not> test_cmd_i (executable p) \<Longrightarrow>
   prepareCommandLine (Some p) options = prepareCommandLine_unknown (Some (executable p)) options"
  by (simp add: prepareCommandLine_def Let_def)

text \<open>
  Claim C1. When there is no process information, or its executable matches none of
  the three patterns, \<open>prepareCommandLine\<close> returns the arguments joined by single
  spaces and nothing else, and calls \<open>console.warn\<close> exactly once.
\<close>

theorem prepareCommandLine_unknown_shell:
  assumes "case processInfo of
             None \<Rightarrow> True
           | Some p \<Rightarrow> \<not> test_bash (executable p) \<and> \<not> test_powershell_i (executable p) \<and>
                       \<not> test_cmd_i (executable p)"
  shows "fst (prepareCommandLine processInfo options) = join '' '' (args options)
       \<and> length (snd (prepareCommandLine processInfo options)) = 1
       \<and> snd (prepareCommandLine processInfo options) =
           [''Unknown shell, could not escape arguments: '' @
              (case processInfo of
                 None \<Rightarrow> ''undefined''
               | Some p \<Rightarrow> if executable p = [] then ''undefined'' else executable p)]"
proof (cases processInfo)
  case None
  then show ?thesis by (simp add: prepareCommandLine_def prepareCommandLine_unknown_def)
next
  case (Some p)
  with assms show ?thesis
    by (simp add: prepareCommandLine_not_detected prepareCommandLine_unknown_def)
qed

theorem prepareCommandLine_unknown_shell_witness:
  "\<not> test_bash ''/usr/bin/fish'' \<and> \<not> test_powershell_i ''/usr/bin/fish'' \<and> \<not> test_cmd_i ''/usr/bin/fish''
   \<and> prepareCommandLine (Some \<lparr>executable = ''/usr/bin/fish'', arguments = []\<rparr>)
        \<lparr>cwd = ''/tmp'', args = [''echo'', ''a b'', ''$HOME''], env = Some [(''FOO'', Some ''bar'')]\<rparr>
      = (''echo a b $HOME'', [''Unknown shell, could not escape arguments: /usr/bin/fish''])
   \<and> prepareCommandLine None \<lparr>cwd = ''/tmp'', args = [''echo'', ''a b''], env = None\<rparr>
      = (''echo a b'', [''Unknown shell, could not escape arguments: undefined''])"
proof -
  have t: "\<not> test_bash ''/usr/bin/fish'' \<and> \<not> test_powershell_i ''/usr/bin/fish'' \<and>
           \<not> test_cmd_i ''/usr/bin/fish''"
    by (simp add: test_bash_def test_powershell_i_def test_cmd_i_def test_opt_exe_end_def
        test_opt_exe_end_i_def ends_with_def to_lower_ascii_def)
  have h: "case Some \<lparr>executable = ''/usr/bin/fish'', arguments = []\<rparr> of
             None \<Rightarrow> True
           | Some p \<Rightarrow> \<not> test_bash (executable p) \<and> \<not> test_powershell_i (executable p) \<and>
                       \<not> test_cmd_i (executable p)"
    using t by simp
  have n: "case None :: TerminalProcessInfo option of
             None \<Rightarrow> True
           | Some p \<Rightarrow> \<not> test_bash (executable p) \<and> \<not> test_powershell_i (executable p) \<and>
                       \<not> test_cmd_i (executable p)"
    by simp
  show ?thesis
    using t
      prepareCommandLine_unknown_shell [OF h,
        of "\<lparr>cwd = ''/tmp'', args = [''echo'', ''a b'', ''$HOME''], env = Some [(''FOO'', Some ''bar'')]\<rparr>"]
      prepareCommandLine_unknown_shell [OF n, of "\<lparr>cwd = ''/tmp'', args = [''echo'', ''a b''], env = None\<rparr>"]
    by (simp add: prod_eq_iff)
qed


section \<open>The shape of the command line per dialect\<close>

lemma bash_env_step_append: "bash_env_step command entry = command @ bash_env_step [] entry"
  by (simp add: bash_env_step_def split: prod.splits option.splits)

lemma foldl_bash_env_step:
  "foldl bash_env_step command entries = command @ concat (map (bash_env_step []) entries)"
proof (induction entries arbitrary: command)
  case Nil
  show ?case by simp
next
  case (Cons entry entries)
  show ?case
    using Cons.IH [of "bash_env_step command entry"] bash_env_step_append [of command entry]
    by simp
qed

lemma powershell_env_step_append:
  "powershell_env_step command entry = command @ powershell_env_step [] entry"
  by (simp add: powershell_env_step_def split: prod.splits option.splits)

lemma foldl_powershell_env_step:
  "foldl powershell_env_step command entries =
     command @ concat (map (powershell_env_step []) entries)"
proof (induction entries arbitrary: command)
  case Nil
  show ?case by simp
next
  case (Cons entry entries)
  show ?case
    using Cons.IH [of "powershell_env_step command entry"]
      powershell_env_step_append [of command entry]
    by simp
qed

lemma cmd_env_step_append: "cmd_env_step command entry = command @ cmd_env_step [] entry"
  by (simp add: cmd_env_step_def split: prod.splits option.splits)

lemma foldl_cmd_env_step:
  "foldl cmd_env_step command entries = command @ concat (map (cmd_env_step []) entries)"
proof (induction entries arbitrary: command)
  case Nil
  show ?case by simp
next
  case (Cons entry entries)
  show ?case
    using Cons.IH [of "cmd_env_step command entry"] cmd_env_step_append [of command entry]
    by simp
qed

lemma prepareCommandLine_bash_shape:
  "prepareCommandLine_bash \<lparr>cwd = c, args = as, env = ev\<rparr> =
     (if c = [] then [] else ''cd '' @ bash_strong c @ '' && '') @
     (case ev of None \<Rightarrow> [] | Some es \<Rightarrow> ''env'' @ concat (map (bash_env_step []) es) @ '' '') @
     createShellCommandLine (args2 as) BashQuotingFunctions"
  by (simp add: prepareCommandLine_bash_def foldl_bash_env_step split: option.splits)

lemma prepareCommandLine_powershell_shape:
  "prepareCommandLine_powershell \<lparr>cwd = c, args = as, env = ev\<rparr> =
     (if c = [] then [] else ''cd '' @ powershell_strong c @ ''; '') @
     (case ev of None \<Rightarrow> [] | Some es \<Rightarrow> concat (map (powershell_env_step []) es)) @
     ''& '' @ createShellCommandLine (args2 as) PowershellQuotingFunctions"
  by (simp add: prepareCommandLine_powershell_def foldl_powershell_env_step split: option.splits)

lemma prepareCommandLine_cmd_shape:
  "prepareCommandLine_cmd \<lparr>cwd = c, args = as, env = ev\<rparr> =
     (if c = [] then [] else ''cd '' @ cmd_strong c @ '' && '') @
     (case ev of
        None \<Rightarrow> createShellCommandLine (args2 as) CmdQuotingFunctions
      | Some es \<Rightarrow>
          ''cmd /C '' @ [DQUOTE] @ concat (map (cmd_env_step []) es) @
          createShellCommandLine (args2 as) CmdQuotingFunctions @ [DQUOTE])"
  by (simp add: prepareCommandLine_cmd_def foldl_cmd_env_step split: option.splits)

lemma powershell_quotedKey_map:
  "powershell_quotedKey key =
     concat (map (\<lambda>ch. if ch = BTICK then [BTICK, BTICK, BTICK, BTICK]
                        else if ch = CHR ''?'' then [BTICK, BTICK, CHR ''?'']
                        else [ch]) key)"
  by (induction key) (simp_all add: powershell_quotedKey_def replace_chars_def)


section \<open>The code at concrete inputs\<close>

lemmas quoting_defs =
  bash_strong_def bash_weak_def bash_escape_def cmd_strong_def cmd_weak_def cmd_escape_def
  powershell_strong_def powershell_weak_def powershell_escape_def
  replace_chars_def replace_trailing_def

lemmas builder_defs =
  prepareCommandLine_def prepareCommandLine_bash_def prepareCommandLine_powershell_def
  prepareCommandLine_cmd_def prepareCommandLine_unknown_def
  bash_env_step_def powershell_env_step_def cmd_env_step_def powershell_quotedKey_def
  createShellCommandLine_def escapeForShell_def args2_def
  BashQuotingFunctions_def CmdQuotingFunctions_def PowershellQuotingFunctions_def

lemmas test_defs =
  test_bash_def test_powershell_i_def test_cmd_i_def test_opt_exe_end_def
  test_opt_exe_end_i_def ends_with_def to_lower_ascii_def is_line_terminator_def

lemma replace_trailing_same: "replace_trailing c [c] s = s"
  using append_butlast_last_id [of s] by (auto simp: replace_trailing_def)

text \<open>
  Claim C4. The second replacement of \<open>CmdQuotingFunctions.weak\<close> puts one backslash
  where it found one, so it changes no string: a value ending in a backslash keeps that
  single backslash directly before the closing double quote. Bash and Powershell weak
  quoting double their trailing escape character on the same kind of input.
\<close>

theorem cmd_weak_trailing_backslash:
  "replace_trailing BSLASH [BSLASH] s = s
   \<and> cmd_weak (''C:'' @ [BSLASH]) = [DQUOTE] @ ''C:'' @ [BSLASH] @ [DQUOTE]
   \<and> bash_weak (''C:'' @ [BSLASH]) = [DQUOTE] @ ''C:'' @ [BSLASH, BSLASH] @ [DQUOTE]
   \<and> powershell_weak (''C:'' @ [BTICK]) = [DQUOTE] @ ''C:'' @ [BTICK, BTICK] @ [DQUOTE]"
proof (intro conjI)
  show "replace_trailing BSLASH [BSLASH] s = s"
    by (rule replace_trailing_same)
qed (simp_all add: quoting_defs)

text \<open>
  Claim C5. \<open>CmdQuotingFunctions.weak\<close> puts a caret before the first line break only:
  in a value with two line feeds the second one is left as it is.
\<close>

theorem cmd_weak_second_line_return:
  "cmd_weak (''a'' @ [LF] @ ''b'' @ [LF] @ ''c'') =
     [DQUOTE] @ ''a'' @ [CARET, LF] @ ''b'' @ [LF] @ ''c'' @ [DQUOTE]"
  by (simp add: quoting_defs)

text \<open>
  Claim C7. For the Cmd dialect an entry with a null value is rendered by strong-quoting
  the whole clause, so the output holds the double-quoted text
  \<open>"set FOO=\"\" && "\<close> where the clause \<open>set FOO="" && \<close> is expected; the entry with
  a value keeps \<open>set\<close> and the separator outside the quotes. For the same entry the
  Bash output holds \<open>-u 'FOO'\<close> inside its \<open>env\<close> clause and the Powershell output
  holds \<open>Remove-Item ${env:FOO}; \<close>.
\<close>

theorem cmd_unset_clause:
  "prepareCommandLine (Some \<lparr>executable = ''cmd.exe'', arguments = []\<rparr>)
     \<lparr>cwd = [], args = [''x''], env = Some [(''FOO'', None)]\<rparr> =
   (''cmd /C '' @ [DQUOTE] @
      [DQUOTE] @ ''set FOO='' @ [BSLASH, DQUOTE, BSLASH, DQUOTE] @ '' && '' @ [DQUOTE] @
      [DQUOTE] @ ''x'' @ [DQUOTE] @ [DQUOTE], [])
   \<and> prepareCommandLine (Some \<lparr>executable = ''cmd.exe'', arguments = []\<rparr>)
     \<lparr>cwd = [], args = [''x''], env = Some [(''FOO'', Some ''bar'')]\<rparr> =
   (''cmd /C '' @ [DQUOTE] @
      ''set '' @ [DQUOTE] @ ''FOO=bar'' @ [DQUOTE] @ '' && '' @
      [DQUOTE] @ ''x'' @ [DQUOTE] @ [DQUOTE], [])
   \<and> prepareCommandLine (Some \<lparr>executable = ''/bin/bash'', arguments = []\<rparr>)
     \<lparr>cwd = [], args = [''x''], env = Some [(''FOO'', None)]\<rparr> =
   (''env -u '' @ [SQUOTE] @ ''FOO'' @ [SQUOTE] @ '' '' @ [SQUOTE] @ ''x'' @ [SQUOTE], [])
   \<and> prepareCommandLine (Some \<lparr>executable = ''pwsh'', arguments = []\<rparr>)
     \<lparr>cwd = [], args = [''x''], env = Some [(''FOO'', None)]\<rparr> =
   (''Remove-Item ${env:FOO}; & '' @ [SQUOTE] @ ''x'' @ [SQUOTE], [])"
  by (simp add: builder_defs quoting_defs test_defs)

text \<open>The branch names agree with the two functions of the sources.\<close>

lemma prepareCommandLine_by_dialect:
  "prepareCommandLine processInfo options =
     (case prepareCommandLine_dialect processInfo of
        Bash \<Rightarrow> (prepareCommandLine_bash options, [])
      | Powershell \<Rightarrow> (prepareCommandLine_powershell options, [])
      | Cmd \<Rightarrow> (prepareCommandLine_cmd options, [])
      | Unknown \<Rightarrow> prepareCommandLine_unknown (map_option executable processInfo) options)"
  by (cases processInfo) (simp_all add: prepareCommandLine_def prepareCommandLine_dialect_def Let_def)

lemma getResolvedCommand_quoting_by_dialect:
  "getResolvedCommand_quoting command =
     (case getResolvedCommand_dialect command of
        Bash \<Rightarrow> (BashQuotingFunctions, [''-l'', ''-c''])
      | Cmd \<Rightarrow> (CmdQuotingFunctions, [''/c''])
      | Powershell \<Rightarrow> (PowershellQuotingFunctions, [''-c''])
      | Unknown \<Rightarrow> (\<lparr>escape = None, strong = None, weak = None\<rparr>, []))"
  by (simp add: getResolvedCommand_quoting_def getResolvedCommand_dialect_def)

lemma prepareCommandLine_dialect_exact:
  "(prepareCommandLine_dialect (Some p) = Bash \<longleftrightarrow> test_bash (executable p))
   \<and> (prepareCommandLine_dialect (Some p) = Powershell \<longleftrightarrow> test_powershell_i (executable p))
   \<and> (prepareCommandLine_dialect (Some p) = Cmd \<longleftrightarrow> test_cmd_i (executable p))
   \<and> (prepareCommandLine_dialect (Some p) = Unknown \<longleftrightarrow>
        \<not> test_bash (executable p) \<and> \<not> test_powershell_i (executable p) \<and>
        \<not> test_cmd_i (executable p))
   \<and> prepareCommandLine_dialect None = Unknown"
  using bash_not_powershell [of "executable p"] bash_not_cmd [of "executable p"]
    powershell_not_cmd [of "executable p"] test_bash_nonempty [of "executable p"]
    test_powershell_i_nonempty [of "executable p"] test_cmd_i_nonempty [of "executable p"]
  by (auto simp: prepareCommandLine_dialect_def)

text \<open>
  Claim C3. The two places that classify the shell disagree. The command-line builder
  follows the three patterns (\<open>prepareCommandLine_dialect_exact\<close>) and takes \<open>CMD.EXE\<close>
  for Cmd, while the task runner, whose patterns lack the \<open>i\<close> flag, selects no quoting
  functions for it. The task runner's Powershell pattern also lacks the \<open>$\<close>: it
  selects the Powershell functions for \<open>/usr/bin/psql\<close>, which the builder leaves
  unknown.
\<close>

theorem task_runner_detection:
  "test_cmd_i ''CMD.EXE''
   \<and> prepareCommandLine_dialect (Some \<lparr>executable = ''CMD.EXE'', arguments = []\<rparr>) = Cmd
   \<and> getResolvedCommand_dialect ''CMD.EXE'' = Unknown
   \<and> getResolvedCommand_quoting ''CMD.EXE'' = (\<lparr>escape = None, strong = None, weak = None\<rparr>, [])
   \<and> \<not> test_powershell_i ''/usr/bin/psql''
   \<and> prepareCommandLine_dialect (Some \<lparr>executable = ''/usr/bin/psql'', arguments = []\<rparr>) = Unknown
   \<and> getResolvedCommand_dialect ''/usr/bin/psql'' = Powershell
   \<and> getResolvedCommand_quoting ''/usr/bin/psql'' = (PowershellQuotingFunctions, [''-c''])"
  by (simp add: getResolvedCommand_quoting_def getResolvedCommand_dialect_def
      prepareCommandLine_dialect_def test_defs)


section \<open>Environment clauses\<close>

lemma powershell_env_step_explicit:
  "powershell_env_step [] =
     (\<lambda>(key, v). case v of
        None \<Rightarrow>
          ''Remove-Item ${env:'' @
          concat (map (\<lambda>ch. if ch = BTICK then [BTICK, BTICK, BTICK, BTICK]
                             else if ch = CHR ''?'' then [BTICK, BTICK, CHR ''?'']
                             else [ch]) key) @ ''}; ''
      | Some x \<Rightarrow>
          ''${env:'' @
          concat (map (\<lambda>ch. if ch = BTICK then [BTICK, BTICK, BTICK, BTICK]
                             else if ch = CHR ''?'' then [BTICK, BTICK, CHR ''?'']
                             else [ch]) key) @ ''}='' @ powershell_strong x @ ''; '')"
  by (rule ext) (simp add: powershell_env_step_def powershell_quotedKey_map split: prod.splits option.splits)

text \<open>
  Claim C6, as amended. In the Powershell dialect the name of every environment entry
  is written into \<open>${env:...}\<close>, in the clause that sets the variable and in the clause
  that removes it, with every backtick replaced by four backticks and every question
  mark replaced by two backticks followed by the question mark.
\<close>

theorem powershell_env_name_quoting:
  assumes "test_powershell_i (executable p)"
  shows "prepareCommandLine (Some p) \<lparr>cwd = c, args = as, env = Some es\<rparr> =
     ((if c = [] then [] else ''cd '' @ powershell_strong c @ ''; '') @
      concat (map (\<lambda>(key, v). case v of
          None \<Rightarrow>
            ''Remove-Item ${env:'' @
            concat (map (\<lambda>ch. if ch = BTICK then [BTICK, BTICK, BTICK, BTICK]
                               else if ch = CHR ''?'' then [BTICK, BTICK, CHR ''?'']
                               else [ch]) key) @ ''}; ''
        | Some x \<Rightarrow>
            ''${env:'' @
            concat (map (\<lambda>ch. if ch = BTICK then [BTICK, BTICK, BTICK, BTICK]
                               else if ch = CHR ''?'' then [BTICK, BTICK, CHR ''?'']
                               else [ch]) key) @ ''}='' @ powershell_strong x @ ''; '') es) @
      ''& '' @ createShellCommandLine (args2 as) PowershellQuotingFunctions, [])"
  by (simp only: prepareCommandLine_powershell_detected [OF assms]
      prepareCommandLine_powershell_shape powershell_env_step_explicit option.case)

theorem powershell_env_name_quoting_witness:
  "test_powershell_i ''pwsh''
   \<and> prepareCommandLine (Some \<lparr>executable = ''pwsh'', arguments = []\<rparr>)
        \<lparr>cwd = [], args = [''x''], env = Some [(''A?B'' @ [BTICK], Some ''v''), (''C?'', None)]\<rparr> =
      (''${env:A'' @ [BTICK, BTICK] @ ''?B'' @ [BTICK, BTICK, BTICK, BTICK] @ ''}='' @
         [SQUOTE] @ ''v'' @ [SQUOTE] @ ''; '' @
       ''Remove-Item ${env:C'' @ [BTICK, BTICK] @ ''?}; '' @
       ''& '' @ [SQUOTE] @ ''x'' @ [SQUOTE], [])"
proof -
  have h: "test_powershell_i (executable \<lparr>executable = ''pwsh'', arguments = []\<rparr>)"
    by (simp add: test_defs)
  show ?thesis
    using h powershell_env_name_quoting [OF h, of "[]" "[''x'']"
        "[(''A?B'' @ [BTICK], Some ''v''), (''C?'', None)]"]
    by (simp add: builder_defs quoting_defs)
qed

text \<open>
  The name \<open>A?B\<close> is rendered with two backticks before the question mark, not one.
\<close>

theorem powershell_env_name_quoting_counterexample:
  "prepareCommandLine (Some \<lparr>executable = ''pwsh'', arguments = []\<rparr>)
     \<lparr>cwd = [], args = [''x''], env = Some [(''A?B'', None)]\<rparr> =
   (''Remove-Item ${env:A'' @ [BTICK, BTICK] @ ''?B}; & '' @ [SQUOTE] @ ''x'' @ [SQUOTE], [])
   \<and> powershell_quotedKey ''A?B'' \<noteq> ''A'' @ [BTICK] @ ''?B''"
  by (simp add: builder_defs quoting_defs test_defs)



section \<open>What the shell reads from the Bash line\<close>















section \<open>Empty working directory and empty environment patch\<close>

text \<open>
  With an environment patch that is present but has no entries, the Bash output still
  starts with \<open>env\<close> and the Cmd output is still wrapped in \<open>cmd /C "..."\<close>.
\<close>

theorem empty_env_counterexample:
  "prepareCommandLine (Some \<lparr>executable = ''/bin/bash'', arguments = []\<rparr>)
     \<lparr>cwd = [], args = [''ls''], env = Some []\<rparr> =
   (''env '' @ [SQUOTE] @ ''ls'' @ [SQUOTE], [])
   \<and> prepareCommandLine (Some \<lparr>executable = ''cmd.exe'', arguments = []\<rparr>)
     \<lparr>cwd = [], args = [''dir''], env = Some []\<rparr> =
   (''cmd /C '' @ [DQUOTE] @ [DQUOTE] @ ''dir'' @ [DQUOTE] @ [DQUOTE], [])"
  by (simp add: builder_defs quoting_defs test_defs)

text \<open>
  Claim C9, as amended. For each detected dialect: the working directory contributes
  its \<open>cd\<close> clause only when it is not empty; with an empty working directory and no
  environment patch the output is the invocation alone; with a patch it is the
  environment clauses followed by the invocation. A patch without entries yields no
  clause per variable, but Bash still emits \<open>env\<close> and a space, and Cmd still wraps the
  invocation in \<open>cmd /C "..."\<close>; Powershell emits nothing for it.
\<close>

theorem empty_cwd_and_env:
  "(test_bash (executable p) \<longrightarrow>
      prepareCommandLine (Some p) \<lparr>cwd = c, args = as, env = ev\<rparr> =
        ((if c = [] then [] else ''cd '' @ bash_strong c @ '' && '') @
         fst (prepareCommandLine (Some p) \<lparr>cwd = [], args = as, env = ev\<rparr>), [])
      \<and> prepareCommandLine (Some p) \<lparr>cwd = [], args = as, env = None\<rparr> =
        (createShellCommandLine (args2 as) BashQuotingFunctions, [])
      \<and> prepareCommandLine (Some p) \<lparr>cwd = [], args = as, env = Some es\<rparr> =
        (''env'' @ concat (map (bash_env_step []) es) @ '' '' @
         createShellCommandLine (args2 as) BashQuotingFunctions, [])
      \<and> prepareCommandLine (Some p) \<lparr>cwd = [], args = as, env = Some []\<rparr> =
        (''env '' @ createShellCommandLine (args2 as) BashQuotingFunctions, []))
   \<and> (test_powershell_i (executable p) \<longrightarrow>
      prepareCommandLine (Some p) \<lparr>cwd = c, args = as, env = ev\<rparr> =
        ((if c = [] then [] else ''cd '' @ powershell_strong c @ ''; '') @
         fst (prepareCommandLine (Some p) \<lparr>cwd = [], args = as, env = ev\<rparr>), [])
      \<and> prepareCommandLine (Some p) \<lparr>cwd = [], args = as, env = None\<rparr> =
        (''& '' @ createShellCommandLine (args2 as) PowershellQuotingFunctions, [])
      \<and> prepareCommandLine (Some p) \<lparr>cwd = [], args = as, env = Some es\<rparr> =
        (concat (map (powershell_env_step []) es) @
         ''& '' @ createShellCommandLine (args2 as) PowershellQuotingFunctions, [])
      \<and> prepareCommandLine (Some p) \<lparr>cwd = [], args = as, env = Some []\<rparr> =
        (''& '' @ createShellCommandLine (args2 as) PowershellQuotingFunctions, []))
   \<and> (test_cmd_i (executable p) \<longrightarrow>
      prepareCommandLine (Some p) \<lparr>cwd = c, args = as, env = ev\<rparr> =
        ((if c = [] then [] else ''cd '' @ cmd_strong c @ '' && '') @
         fst (prepareCommandLine (Some p) \<lparr>cwd = [], args = as, env = ev\<rparr>), [])
      \<and> prepareCommandLine (Some p) \<lparr>cwd = [], args = as, env = None\<rparr> =
        (createShellCommandLine (args2 as) CmdQuotingFunctions, [])
      \<and> prepareCommandLine (Some p) \<lparr>cwd = [], args = as, env = Some es\<rparr> =
        (''cmd /C '' @ [DQUOTE] @ concat (map (cmd_env_step []) es) @
         createShellCommandLine (args2 as) CmdQuotingFunctions @ [DQUOTE], [])
      \<and> prepareCommandLine (Some p) \<lparr>cwd = [], args = as, env = Some []\<rparr> =
        (''cmd /C '' @ [DQUOTE] @ createShellCommandLine (args2 as) CmdQuotingFunctions @ [DQUOTE], []))"
proof (intro conjI impI)
  assume b: "test_bash (executable p)"
  show "prepareCommandLine (Some p) \<lparr>cwd = c, args = as, env = ev\<rparr> =
        ((if c = [] then [] else ''cd '' @ bash_strong c @ '' && '') @
         fst (prepareCommandLine (Some p) \<lparr>cwd = [], args = as, env = ev\<rparr>), [])"
    by (simp add: prepareCommandLine_bash_detected [OF b] prepareCommandLine_bash_shape)
  show "prepareCommandLine (Some p) \<lparr>cwd = [], args = as, env = None\<rparr> =
        (createShellCommandLine (args2 as) BashQuotingFunctions, [])"
    by (simp add: prepareCommandLine_bash_detected [OF b] prepareCommandLine_bash_shape)
  show "prepareCommandLine (Some p) \<lparr>cwd = [], args = as, env = Some es\<rparr> =
        (''env'' @ concat (map (bash_env_step []) es) @ '' '' @
         createShellCommandLine (args2 as) BashQuotingFunctions, [])"
    by (simp add: prepareCommandLine_bash_detected [OF b] prepareCommandLine_bash_shape)
  show "prepareCommandLine (Some p) \<lparr>cwd = [], args = as, env = Some []\<rparr> =
        (''env '' @ createShellCommandLine (args2 as) BashQuotingFunctions, [])"
    by (simp add: prepareCommandLine_bash_detected [OF b] prepareCommandLine_bash_shape)
next
  assume w: "test_powershell_i (executable p)"
  show "prepareCommandLine (Some p) \<lparr>cwd = c, args = as, env = ev\<rparr> =
        ((if c = [] then [] else ''cd '' @ powershell_strong c @ ''; '') @
         fst (prepareCommandLine (Some p) \<lparr>cwd = [], args = as, env = ev\<rparr>), [])"
    by (simp add: prepareCommandLine_powershell_detected [OF w] prepareCommandLine_powershell_shape)
  show "prepareCommandLine (Some p) \<lparr>cwd = [], args = as, env = None\<rparr> =
        (''& '' @ createShellCommandLine (args2 as) PowershellQuotingFunctions, [])"
    by (simp add: prepareCommandLine_powershell_detected [OF w] prepareCommandLine_powershell_shape)
  show "prepareCommandLine (Some p) \<lparr>cwd = [], args = as, env = Some es\<rparr> =
        (concat (map (powershell_env_step []) es) @
         ''& '' @ createShellCommandLine (args2 as) PowershellQuotingFunctions, [])"
    by (simp add: prepareCommandLine_powershell_detected [OF w] prepareCommandLine_powershell_shape)
  show "prepareCommandLine (Some p) \<lparr>cwd = [], args = as, env = Some []\<rparr> =
        (''& '' @ createShellCommandLine (args2 as) PowershellQuotingFunctions, [])"
    by (simp add: prepareCommandLine_powershell_detected [OF w] prepareCommandLine_powershell_shape)
next
  assume m: "test_cmd_i (executable p)"
  show "prepareCommandLine (Some p) \<lparr>cwd = c, args = as, env = ev\<rparr> =
        ((if c = [] then [] else ''cd '' @ cmd_strong c @ '' && '') @
         fst (prepareCommandLine (Some p) \<lparr>cwd = [], args = as, env = ev\<rparr>), [])"
    by (simp add: prepareCommandLine_cmd_detected [OF m] prepareCommandLine_cmd_shape)
  show "prepareCommandLine (Some p) \<lparr>cwd = [], args = as, env = None\<rparr> =
        (createShellCommandLine (args2 as) CmdQuotingFunctions, [])"
    by (simp add: prepareCommandLine_cmd_detected [OF m] prepareCommandLine_cmd_shape)
  show "prepareCommandLine (Some p) \<lparr>cwd = [], args = as, env = Some es\<rparr> =
        (''cmd /C '' @ [DQUOTE] @ concat (map (cmd_env_step []) es) @
         createShellCommandLine (args2 as) CmdQuotingFunctions @ [DQUOTE], [])"
    by (simp add: prepareCommandLine_cmd_detected [OF m] prepareCommandLine_cmd_shape)
  show "prepareCommandLine (Some p) \<lparr>cwd = [], args = as, env = Some []\<rparr> =
        (''cmd /C '' @ [DQUOTE] @ createShellCommandLine (args2 as) CmdQuotingFunctions @ [DQUOTE], [])"
    by (simp add: prepareCommandLine_cmd_detected [OF m] prepareCommandLine_cmd_shape)
qed

theorem empty_cwd_and_env_witness:
  "test_bash ''/bin/bash'' \<and> test_powershell_i ''PowerShell.EXE'' \<and> test_cmd_i ''cmd.exe''
   \<and> prepareCommandLine (Some \<lparr>executable = ''/bin/bash'', arguments = []\<rparr>)
        \<lparr>cwd = [], args = [''ls'', ''a b''], env = None\<rparr> =
      ([SQUOTE] @ ''ls'' @ [SQUOTE] @ '' '' @ [SQUOTE] @ ''a b'' @ [SQUOTE], [])
   \<and> prepareCommandLine (Some \<lparr>executable = ''/bin/bash'', arguments = []\<rparr>)
        \<lparr>cwd = [], args = [''ls'', ''a b''], env = Some []\<rparr> =
      (''env '' @ [SQUOTE] @ ''ls'' @ [SQUOTE] @ '' '' @ [SQUOTE] @ ''a b'' @ [SQUOTE], [])
   \<and> prepareCommandLine (Some \<lparr>executable = ''PowerShell.EXE'', arguments = []\<rparr>)
        \<lparr>cwd = [], args = [''ls'', ''a b''], env = Some []\<rparr> =
      (''& '' @ [SQUOTE] @ ''ls'' @ [SQUOTE] @ '' '' @ [SQUOTE] @ ''a b'' @ [SQUOTE], [])
   \<and> prepareCommandLine (Some \<lparr>executable = ''cmd.exe'', arguments = []\<rparr>)
        \<lparr>cwd = [], args = [''ls'', ''a b''], env = None\<rparr> =
      ([DQUOTE] @ ''ls'' @ [DQUOTE] @ '' '' @ [DQUOTE] @ ''a b'' @ [DQUOTE], [])
   \<and> prepareCommandLine (Some \<lparr>executable = ''cmd.exe'', arguments = []\<rparr>)
        \<lparr>cwd = [], args = [''ls'', ''a b''], env = Some []\<rparr> =
      (''cmd /C '' @ [DQUOTE] @ [DQUOTE] @ ''ls'' @ [DQUOTE] @ '' '' @ [DQUOTE] @ ''a b'' @ [DQUOTE] @
       [DQUOTE], [])"
proof -
  have b: "test_bash (executable \<lparr>executable = ''/bin/bash'', arguments = []\<rparr>)"
    by (simp add: test_defs)
  have w: "test_powershell_i (executable \<lparr>executable = ''PowerShell.EXE'', arguments = []\<rparr>)"
    by (simp add: test_defs)
  have m: "test_cmd_i (executable \<lparr>executable = ''cmd.exe'', arguments = []\<rparr>)"
    by (simp add: test_defs)
  note t = empty_cwd_and_env [where c = "[]" and as = "[''ls'', ''a b'']" and ev = None and es = "[]"]
  from b t [of "\<lparr>executable = ''/bin/bash'', arguments = []\<rparr>"]
  have 1: "prepareCommandLine (Some \<lparr>executable = ''/bin/bash'', arguments = []\<rparr>)
        \<lparr>cwd = [], args = [''ls'', ''a b''], env = None\<rparr> =
        (createShellCommandLine (args2 [''ls'', ''a b'']) BashQuotingFunctions, [])"
    and 2: "prepareCommandLine (Some \<lparr>executable = ''/bin/bash'', arguments = []\<rparr>)
        \<lparr>cwd = [], args = [''ls'', ''a b''], env = Some []\<rparr> =
        (''env '' @ createShellCommandLine (args2 [''ls'', ''a b'']) BashQuotingFunctions, [])"
    by blast+
  from w t [of "\<lparr>executable = ''PowerShell.EXE'', arguments = []\<rparr>"]
  have 3: "prepareCommandLine (Some \<lparr>executable = ''PowerShell.EXE'', arguments = []\<rparr>)
        \<lparr>cwd = [], args = [''ls'', ''a b''], env = Some []\<rparr> =
        (''& '' @ createShellCommandLine (args2 [''ls'', ''a b'']) PowershellQuotingFunctions, [])"
    by blast
  from m t [of "\<lparr>executable = ''cmd.exe'', arguments = []\<rparr>"]
  have 4: "prepareCommandLine (Some \<lparr>executable = ''cmd.exe'', arguments = []\<rparr>)
        \<lparr>cwd = [], args = [''ls'', ''a b''], env = None\<rparr> =
        (createShellCommandLine (args2 [''ls'', ''a b'']) CmdQuotingFunctions, [])"
    and 5: "prepareCommandLine (Some \<lparr>executable = ''cmd.exe'', arguments = []\<rparr>)
        \<lparr>cwd = [], args = [''ls'', ''a b''], env = Some []\<rparr> =
        (''cmd /C '' @ [DQUOTE] @ createShellCommandLine (args2 [''ls'', ''a b'']) CmdQuotingFunctions @
         [DQUOTE], [])"
    by blast+
  have 6: "createShellCommandLine (args2 [''ls'', ''a b'']) BashQuotingFunctions =
      [SQUOTE] @ ''ls'' @ [SQUOTE] @ '' '' @ [SQUOTE] @ ''a b'' @ [SQUOTE]"
    by (simp add: builder_defs quoting_defs)
  have 7: "createShellCommandLine (args2 [''ls'', ''a b'']) PowershellQuotingFunctions =
      [SQUOTE] @ ''ls'' @ [SQUOTE] @ '' '' @ [SQUOTE] @ ''a b'' @ [SQUOTE]"
    by (simp add: builder_defs quoting_defs)
  have 8: "createShellCommandLine (args2 [''ls'', ''a b'']) CmdQuotingFunctions =
      [DQUOTE] @ ''ls'' @ [DQUOTE] @ '' '' @ [DQUOTE] @ ''a b'' @ [DQUOTE]"
    by (simp add: builder_defs quoting_defs)
  from b w m 1 2 3 4 5 show ?thesis
    unfolding 6 7 8 by simp
qed

end
